theory Spec2Isabelle
  imports Complex_Main
begin

section \<open>Python values, exceptions and strings\<close>

text \<open>
  The dashboard is one Python module (\<^verbatim>\<open>main.py\<close>) built on PyQt5 and \<^verbatim>\<open>requests\<close>.
  Values that come out of \<^verbatim>\<open>json.load\<close> and \<^verbatim>\<open>Response.json()\<close> are modelled by the
  datatype \<open>json\<close>: \<open>JNull\<close> is Python's \<^verbatim>\<open>None\<close>, \<open>JObj\<close> holds the items of a
  \<^verbatim>\<open>dict\<close> (its keys are distinct, so \<open>map_of\<close> is the lookup), \<open>JInt\<close> is an \<^verbatim>\<open>int\<close>
  and \<open>JFloat\<close> a finite \<^verbatim>\<open>float\<close>, held as the rational it denotes.

  Python strings are modelled as \<open>string\<close> holding their UTF-8 bytes, so the two
  non-ASCII characters of the source (the degree sign and the ellipsis) are byte
  sequences. UTF-8 is injective and self-synchronising, so equality and containment of
  strings are unchanged.
\<close>

datatype json =
    JNull
  | JBool bool
  | JInt int
  | JFloat rat
  | JStr string
  | JArr "json list"
  | JObj "(string \<times> json) list"

datatype py_exception = KeyError | TypeError | OSError | JSONDecodeError | RequestException

text \<open>Truth value of a Python object, as \<^verbatim>\<open>not self.api_key\<close> and \<^verbatim>\<open>x or 400\<close> test it.\<close>

definition truthy :: "json \<Rightarrow> bool" where
  "truthy v =
     (case v of
        JNull \<Rightarrow> False
      | JBool b \<Rightarrow> b
      | JInt i \<Rightarrow> i \<noteq> 0
      | JFloat x \<Rightarrow> x \<noteq> 0
      | JStr s \<Rightarrow> s \<noteq> []
      | JArr xs \<Rightarrow> xs \<noteq> []
      | JObj kvs \<Rightarrow> kvs \<noteq> [])"

text \<open>
  \<^verbatim>\<open>v[k]\<close> with a string key: a \<^verbatim>\<open>dict\<close> looks the key up and raises \<^verbatim>\<open>KeyError\<close> when it
  is missing; every other JSON value raises \<^verbatim>\<open>TypeError\<close> (a list or a string wants an
  integer index, the rest is not subscriptable).
\<close>

definition subscript :: "json \<Rightarrow> string \<Rightarrow> py_exception + json" where
  "subscript v k =
     (case v of
        JObj kvs \<Rightarrow> (case map_of kvs k of None \<Rightarrow> Inl KeyError | Some x \<Rightarrow> Inr x)
      | _ \<Rightarrow> Inl TypeError)"

definition degree_F :: string where
  "degree_F = [CHR 0xC2, CHR 0xB0] @ ''F''"

definition loading_text :: string where
  "loading_text = ''Loading'' @ [CHR 0xE2, CHR 0x80, CHR 0xA6]"

definition newline :: string where
  "newline = [CHR 0x0A]"

section \<open>The screen stack\<close>

text \<open>
  \<^verbatim>\<open>QStackedWidget\<close> as the dashboard uses it: \<^verbatim>\<open>addWidget\<close> appends a page and makes
  the first page current, \<^verbatim>\<open>setCurrentIndex\<close> selects a page and ignores an index that is
  out of range. An empty stack has current index \<open>-1\<close>.
\<close>

record stacked_widget =
  count :: nat
  currentIndex :: int

definition QStackedWidget :: stacked_widget where
  "QStackedWidget = \<lparr>count = 0, currentIndex = -1\<rparr>"

definition addWidget :: "stacked_widget \<Rightarrow> stacked_widget" where
  "addWidget st =
     (if count st = 0 then \<lparr>count = 1, currentIndex = 0\<rparr>
      else st\<lparr>count := count st + 1\<rparr>)"

definition setCurrentIndex :: "int \<Rightarrow> stacked_widget \<Rightarrow> stacked_widget" where
  "setCurrentIndex i st =
     (if 0 \<le> i \<and> i < int (count st) then st\<lparr>currentIndex := i\<rparr> else st)"

section \<open>The dashboard\<close>

text \<open>
  The fields of \<^verbatim>\<open>Dashboard\<close> that the weather refresh and the navigation read or
  write. \<open>http_log\<close> is the list of URLs handed to \<^verbatim>\<open>requests.get\<close> so far: it records
  the network calls the object has issued.
\<close>

record dashboard =
  api_key :: json
  location :: json
  stack :: stacked_widget
  temp_btn :: string
  weather_info :: string
  http_log :: "string list"

subsection \<open>Loading the API key\<close>

text \<open>
  What \<^verbatim>\<open>open("Wapi.json")\<close> followed by \<^verbatim>\<open>json.load\<close> can meet: the file cannot be
  opened (absent, unreadable), or it is read and its text either is not JSON
  (\<open>FileText None\<close>) or parses to a value.
\<close>

datatype file_outcome = OpenFails | FileText "json option"

text \<open>The body of the \<^verbatim>\<open>try\<close> in \<^verbatim>\<open>load_weather_key\<close>.\<close>

definition load_weather_key_try :: "file_outcome \<Rightarrow> py_exception + (json \<times> json)" where
  "load_weather_key_try f =
     (case f of
        OpenFails \<Rightarrow> Inl OSError
      | FileText None \<Rightarrow> Inl JSONDecodeError
      | FileText (Some data) \<Rightarrow>
          (case subscript data ''api_key'' of
             Inl e \<Rightarrow> Inl e
           | Inr k \<Rightarrow>
               (case subscript data ''location'' of
                  Inl e \<Rightarrow> Inl e
                | Inr l \<Rightarrow> Inr (k, l))))"

text \<open>The bare \<^verbatim>\<open>except:\<close> turns every exception into \<^verbatim>\<open>(None, None)\<close>.\<close>

definition load_weather_key :: "file_outcome \<Rightarrow> py_exception + (json \<times> json)" where
  "load_weather_key f =
     (case load_weather_key_try f of
        Inl e \<Rightarrow> Inr (JNull, JNull)
      | Inr p \<Rightarrow> Inr p)"

subsection \<open>The weather refresh\<close>

text \<open>
  \<^verbatim>\<open>requests.get(url)\<close> either raises (no connection, timeout, bad URL) or returns a
  response with a status code and a body; \<^verbatim>\<open>.json()\<close> raises when the body is not
  JSON (\<open>Response st None\<close>) and returns the parsed value otherwise. The status code is
  carried along: the source never reads it.
\<close>

datatype http_outcome = ConnectionFails | Response int "json option"

definition request_json :: "http_outcome \<Rightarrow> py_exception + json" where
  "request_json out =
     (case out of
        ConnectionFails \<Rightarrow> Inl RequestException
      | Response st None \<Rightarrow> Inl JSONDecodeError
      | Response st (Some r) \<Rightarrow> Inr r)"

text \<open>
  \<^verbatim>\<open>temp_f = r["current"]["temp_f"]\<close> and
  \<^verbatim>\<open>condition = r["current"]["condition"]["text"]\<close>, in this order.
\<close>

definition weather_fields :: "json \<Rightarrow> py_exception + (json \<times> json)" where
  "weather_fields r =
     (case subscript r ''current'' of
        Inl e \<Rightarrow> Inl e
      | Inr cur \<Rightarrow>
          (case subscript cur ''temp_f'' of
             Inl e \<Rightarrow> Inl e
           | Inr temp_f \<Rightarrow>
               (case subscript r ''current'' of
                  Inl e \<Rightarrow> Inl e
                | Inr cur' \<Rightarrow>
                    (case subscript cur' ''condition'' of
                       Inl e \<Rightarrow> Inl e
                     | Inr cond \<Rightarrow>
                         (case subscript cond ''text'' of
                            Inl e \<Rightarrow> Inl e
                          | Inr condition \<Rightarrow> Inr (temp_f, condition))))))"

text \<open>
  The specification names the response shape it expects: an object whose \<open>current\<close>
  holds \<open>temp_f\<close> and \<open>condition\<close>, whose \<open>condition\<close> holds \<open>text\<close>. \<open>member\<close>
  is the member of an object (and nothing for a value that is no object);
  \<open>has_expected_fields\<close> says that no expected field is missing.
\<close>

definition member :: "json \<Rightarrow> string \<Rightarrow> json option" where
  "member v k = (case v of JObj kvs \<Rightarrow> map_of kvs k | _ \<Rightarrow> None)"

definition has_expected_fields :: "json \<Rightarrow> bool" where
  "has_expected_fields r =
     (case member r ''current'' of
        None \<Rightarrow> False
      | Some cur \<Rightarrow>
          member cur ''temp_f'' \<noteq> None
          \<and> (case member cur ''condition'' of
                None \<Rightarrow> False
              | Some cond \<Rightarrow> member cond ''text'' \<noteq> None))"

text \<open>
  The f-strings format a value with Python's \<^verbatim>\<open>format(v, "")\<close>. That function belongs
  to the interpreter, not to this program, so the model takes it as the parameter
  \<open>fmt\<close>.
\<close>

definition weather_url :: "(json \<Rightarrow> string) \<Rightarrow> dashboard \<Rightarrow> string" where
  "weather_url fmt d =
     ''http://api.weatherapi.com/v1/current.json?key='' @ fmt (api_key d)
       @ ''&q='' @ fmt (location d)"

text \<open>
  \<^verbatim>\<open>update_weather\<close>. \<open>net\<close> is what the network answers to a GET of a URL at the
  time of this refresh. The result is a sum so that an exception leaving the method
  would be a value \<open>Inl\<close>.
\<close>

definition update_weather ::
  "(json \<Rightarrow> string) \<Rightarrow> (string \<Rightarrow> http_outcome) \<Rightarrow> dashboard \<Rightarrow> py_exception + dashboard" where
  "update_weather fmt net d =
     (if \<not> truthy (api_key d) then Inr (d\<lparr>temp_btn := ''No API''\<rparr>)
      else
        let url = weather_url fmt d;
            d1 = d\<lparr>http_log := http_log d @ [url]\<rparr>
        in case (case request_json (net url) of Inl e \<Rightarrow> Inl e | Inr r \<Rightarrow> weather_fields r) of
             Inr (temp_f, condition) \<Rightarrow>
               Inr (d1\<lparr>temp_btn := fmt temp_f @ degree_F,
                        weather_info := ''Temperature: '' @ fmt temp_f @ degree_F @ newline
                                          @ ''Condition: '' @ fmt condition\<rparr>)
           | Inl e \<Rightarrow>
               Inr (d1\<lparr>temp_btn := ''Err'', weather_info := ''Weather load error''\<rparr>))"

text \<open>A run of refreshes, one network behaviour per timer tick; an exception would stop it.\<close>

fun refreshes ::
  "(json \<Rightarrow> string) \<Rightarrow> (string \<Rightarrow> http_outcome) list \<Rightarrow> dashboard \<Rightarrow> py_exception + dashboard" where
  "refreshes fmt [] d = Inr d"
| "refreshes fmt (net # nets) d =
     (case update_weather fmt net d of
        Inl e \<Rightarrow> Inl e
      | Inr d' \<Rightarrow> refreshes fmt nets d')"

subsection \<open>Construction and navigation\<close>

text \<open>
  \<^verbatim>\<open>Dashboard.__init__\<close>: load the key, build the three screens (the temperature button
  and the detail label both start as "Loading\<dots>"), add them to the stack in the order
  main, weather, calendar, then refresh the weather once. The date button and the
  painted widgets hold no state that the refresh or the navigation reads.
\<close>

definition Dashboard_init ::
  "(json \<Rightarrow> string) \<Rightarrow> file_outcome \<Rightarrow> (string \<Rightarrow> http_outcome) \<Rightarrow> py_exception + dashboard" where
  "Dashboard_init fmt file net =
     (case load_weather_key file of
        Inl e \<Rightarrow> Inl e
      | Inr (k, l) \<Rightarrow>
          update_weather fmt net
            \<lparr>api_key = k, location = l,
             stack = addWidget (addWidget (addWidget QStackedWidget)),
             temp_btn = loading_text, weather_info = loading_text, http_log = []\<rparr>)"

definition show_main :: "dashboard \<Rightarrow> dashboard" where
  "show_main d = d\<lparr>stack := setCurrentIndex 0 (stack d)\<rparr>"

definition show_weather :: "dashboard \<Rightarrow> dashboard" where
  "show_weather d = d\<lparr>stack := setCurrentIndex 1 (stack d)\<rparr>"

definition show_calendar :: "dashboard \<Rightarrow> dashboard" where
  "show_calendar d = d\<lparr>stack := setCurrentIndex 2 (stack d)\<rparr>"

text \<open>
  The specification's router speaks of a closed set of screens, \<open>show\<close> and
  \<open>current\<close>. In the program a screen is a page index of the stack and \<open>show\<close> is one
  of the three methods above; \<open>current\<close> reads the index back and is \<open>None\<close> when the
  index names no screen.
\<close>

datatype screen = Main | WeatherDetail | Calendar

definition show_screen :: "screen \<Rightarrow> dashboard \<Rightarrow> dashboard" where
  "show_screen s d =
     (case s of Main \<Rightarrow> show_main d | WeatherDetail \<Rightarrow> show_weather d | Calendar \<Rightarrow> show_calendar d)"

definition current :: "dashboard \<Rightarrow> screen option" where
  "current d =
     (let i = currentIndex (stack d)
      in if i = 0 then Some Main
         else if i = 1 then Some WeatherDetail
         else if i = 2 then Some Calendar
         else None)"

fun navigate :: "screen list \<Rightarrow> dashboard \<Rightarrow> dashboard" where
  "navigate [] d = d"
| "navigate (s # ss) d = navigate ss (show_screen s d)"

section \<open>Sources of outside values\<close>

text \<open>
  The random generator and the wall clock hand out one value per call. A source is
  the sequence of values still to come; a call takes the first and leaves the rest.
\<close>

type_synonym 'a source = "nat \<Rightarrow> 'a"

definition next_value :: "'a source \<Rightarrow> 'a \<times> 'a source" where
  "next_value g = (g 0, \<lambda>i. g (Suc i))"

type_synonym rng = "nat source"

text \<open>
  The three calls into \<^verbatim>\<open>random\<close>, each fed by one raw draw: \<^verbatim>\<open>random.random()\<close> is a
  53-bit fraction in \<open>[0, 1)\<close>, \<^verbatim>\<open>random.randint(a, b)\<close> lies in \<open>a..b\<close> with both ends
  included, \<^verbatim>\<open>random.choice(xs)\<close> is an element of the non-empty \<open>xs\<close>.
\<close>

definition random_random :: "rng \<Rightarrow> rat \<times> rng" where
  "random_random g = (let (k, g') = next_value g in (of_nat (k mod 2 ^ 53) / 2 ^ 53, g'))"

definition randint :: "int \<Rightarrow> int \<Rightarrow> rng \<Rightarrow> int \<times> rng" where
  "randint a b g = (let (k, g') = next_value g in (a + int k mod (b - a + 1), g'))"

definition choice :: "'a list \<Rightarrow> rng \<Rightarrow> 'a \<times> rng" where
  "choice xs g = (let (k, g') = next_value g in (xs ! (k mod length xs), g'))"

section \<open>The matrix background\<close>

text \<open>
  \<^verbatim>\<open>MatrixBackground\<close>: the flag \<^verbatim>\<open>running\<close>, the row of every column, the cell size,
  and the widget's geometry as \<^verbatim>\<open>self.width()\<close> and \<^verbatim>\<open>self.height()\<close> report it.
\<close>

record matrix_bg =
  running :: bool
  columns :: "int list"
  font_size :: int
  width :: int
  height :: int

definition chars :: string where
  "chars = map char_of [33..<(127::nat)]"

text \<open>\<^verbatim>\<open>[random.randint(0, 20) for _ in range(n)]\<close>\<close>

fun randints :: "nat \<Rightarrow> rng \<Rightarrow> int list \<times> rng" where
  "randints 0 g = ([], g)"
| "randints (Suc n) g =
     (let (v, g1) = randint 0 20 g;
          (vs, g2) = randints n g1
      in (v # vs, g2))"

definition init_columns :: "matrix_bg \<Rightarrow> rng \<Rightarrow> matrix_bg \<times> rng" where
  "init_columns m g =
     (let w = (if width m \<noteq> 0 then width m else 400);
          fs = 12;
          (cols, g') = randints (nat (w div fs)) g
      in (m\<lparr>columns := cols, font_size := fs\<rparr>, g'))"

text \<open>Qt has set the new geometry when it delivers the resize event.\<close>

definition resizeEvent :: "int \<Rightarrow> int \<Rightarrow> matrix_bg \<Rightarrow> rng \<Rightarrow> matrix_bg \<times> rng" where
  "resizeEvent w h m g = init_columns (m\<lparr>width := w, height := h\<rparr>) g"

datatype text_op = DrawText int int char

text \<open>
  The \<^verbatim>\<open>if\<close> at the end of the loop body, for the column at row \<open>col\<close>. Python's
  \<^verbatim>\<open>and\<close> calls \<^verbatim>\<open>random.random()\<close> only when the first test holds.
\<close>

definition column_step :: "int \<Rightarrow> int \<Rightarrow> int \<Rightarrow> rng \<Rightarrow> int \<times> rng" where
  "column_step fs h col g =
     (if col * fs > h
      then (let (u, g') = random_random g
            in if u > 0.975 then (0, g') else (col + 1, g'))
      else (col + 1, g))"

text \<open>\<^verbatim>\<open>for i, col in enumerate(self.columns)\<close>, from index \<open>i\<close> on.\<close>

fun paint_columns ::
  "int \<Rightarrow> int \<Rightarrow> int \<Rightarrow> int list \<Rightarrow> rng \<Rightarrow> int list \<times> text_op list \<times> rng" where
  "paint_columns fs h i [] g = ([], [], g)"
| "paint_columns fs h i (col # cols) g =
     (let (ch, g1) = choice chars g;
          x = i * fs;
          y = col * fs;
          (col', g2) = column_step fs h col g1;
          (cols', ops, g3) = paint_columns fs h (i + 1) cols g2
      in (col' # cols', DrawText x y ch # ops, g3))"

text \<open>
  One tick of the background: the timer's timeout asks for a repaint, which Qt delivers
  as \<^verbatim>\<open>paintEvent\<close>. The result holds the \<^verbatim>\<open>drawText\<close> calls of the loop; the
  \<^verbatim>\<open>fillRect\<close>, \<^verbatim>\<open>setFont\<close> and \<^verbatim>\<open>setPen\<close> before the loop touch no state of the
  object and are left out.
\<close>

definition matrix_paintEvent :: "matrix_bg \<Rightarrow> rng \<Rightarrow> matrix_bg \<times> text_op list \<times> rng" where
  "matrix_paintEvent m g =
     (if \<not> running m then (m, [], g)
      else
        let (cols, ops, g') = paint_columns (font_size m) (height m) 0 (columns m) g
        in (m\<lparr>columns := cols\<rparr>, ops, g'))"

text \<open>
  \<^verbatim>\<open>toggle\<close> flips the flag; its \<^verbatim>\<open>self.update()\<close> asks for a repaint, which is a
  later tick.
\<close>

definition toggle :: "matrix_bg \<Rightarrow> matrix_bg" where
  "toggle m = m\<lparr>running := \<not> running m\<rparr>"

text \<open>\<open>n\<close> ticks in a row.\<close>

fun ticks :: "nat \<Rightarrow> matrix_bg \<Rightarrow> rng \<Rightarrow> matrix_bg \<times> rng" where
  "ticks 0 m g = (m, g)"
| "ticks (Suc n) m g =
     (let (m', ops, g') = matrix_paintEvent m g in ticks n m' g')"

section \<open>The analog clock\<close>









section \<open>Sample inputs\<close>

text \<open>Concrete values on which the theorems below are evaluated.\<close>

definition sunny_body :: json where
  "sunny_body =
     JObj [(''current'',
            JObj [(''temp_f'', JFloat 72.5),
                  (''condition'', JObj [(''text'', JStr ''Sunny'')])])]"

definition no_condition_body :: json where
  "no_condition_body = JObj [(''current'', JObj [(''temp_f'', JFloat 72.5)])]"

text \<open>
  An instance of the formatting parameter that agrees with Python on the values of
  the samples: a string formats as itself, the float 72.5 as "72.5".
\<close>

definition fmt_sample :: "json \<Rightarrow> string" where
  "fmt_sample v = (case v of JStr s \<Rightarrow> s | _ \<Rightarrow> ''72.5'')"

definition keyed_dashboard :: dashboard where
  "keyed_dashboard =
     \<lparr>api_key = JStr ''k'', location = JStr ''Oslo'',
      stack = addWidget (addWidget (addWidget QStackedWidget)),
      temp_btn = loading_text, weather_info = loading_text, http_log = []\<rparr>"

definition keyless_dashboard :: dashboard where
  "keyless_dashboard = keyed_dashboard\<lparr>api_key := JNull, location := JNull\<rparr>"

definition answers_sunny :: "int \<Rightarrow> string \<Rightarrow> http_outcome" where
  "answers_sunny st url = Response st (Some sunny_body)"

definition answers_no_condition :: "string \<Rightarrow> http_outcome" where
  "answers_no_condition url = Response 200 (Some no_condition_body)"

definition counting_rng :: rng where
  "counting_rng i = i"


definition fresh_matrix :: matrix_bg where
  "fresh_matrix = \<lparr>running = True, columns = [0, 0], font_size = 12, width = 24, height = 100\<rparr>"


section \<open>Properties of the weather refresh and the configuration\<close>

lemma update_weather_keyless:
  "\<not> truthy (api_key d) \<Longrightarrow> update_weather fmt net d = Inr (d\<lparr>temp_btn := ''No API''\<rparr>)"
  by (simp add: update_weather_def)

lemma update_weather_returns: "\<exists>d'. update_weather fmt net d = Inr d'"
  by (simp add: update_weather_def Let_def split: sum.split prod.split)

lemma refreshes_keyless:
  "\<not> truthy (api_key d) \<Longrightarrow> refreshes fmt (net # nets) d = Inr (d\<lparr>temp_btn := ''No API''\<rparr>)"
proof (induction nets arbitrary: net d)
  case Nil
  then show ?case by (simp add: update_weather_keyless)
next
  case (Cons n ns)
  have "refreshes fmt (net # n # ns) d = refreshes fmt (n # ns) (d\<lparr>temp_btn := ''No API''\<rparr>)"
    using Cons.prems by (simp add: update_weather_keyless)
  also have "\<dots> = Inr (d\<lparr>temp_btn := ''No API'', temp_btn := ''No API''\<rparr>)"
    using Cons.prems by (intro Cons.IH) simp
  finally show ?case by simp
qed

lemma load_weather_key_returns: "\<exists>k l. load_weather_key f = Inr (k, l)"
  by (cases "load_weather_key_try f") (auto simp: load_weather_key_def)

lemma refreshes_returns: "\<exists>d'. refreshes fmt nets d = Inr d'"
proof (induction nets arbitrary: d)
  case Nil
  show ?case by simp
next
  case (Cons net nets)
  obtain d1 where "update_weather fmt net d = Inr d1"
    using update_weather_returns by blast
  then show ?case using Cons.IH [of d1] by simp
qed

text \<open>
  Claim C9. Whatever goes wrong when the configuration is loaded (the file cannot be
  opened, its text is not JSON, or the JSON object lacks \<open>api_key\<close> or \<open>location\<close>),
  \<open>load_weather_key\<close> returns the pair \<open>(None, None)\<close> and raises nothing, and the
  dashboard built from it starts in the weather-disabled state: the summary button
  reads "No API" and no request has been sent.
\<close>

theorem load_weather_key_degrades:
  assumes "f = OpenFails \<or> f = FileText None
           \<or> (\<exists>kvs. f = FileText (Some (JObj kvs))
                 \<and> (map_of kvs ''api_key'' = None \<or> map_of kvs ''location'' = None))"
  shows "load_weather_key f = Inr (JNull, JNull)
         \<and> Dashboard_init fmt f net
             = Inr \<lparr>api_key = JNull, location = JNull,
                    stack = addWidget (addWidget (addWidget QStackedWidget)),
                    temp_btn = ''No API'', weather_info = loading_text, http_log = []\<rparr>"
proof -
  have "\<exists>e. load_weather_key_try f = Inl e"
    using assms
    by (auto simp: load_weather_key_try_def subscript_def split: option.splits)
  then have k: "load_weather_key f = Inr (JNull, JNull)"
    by (auto simp: load_weather_key_def)
  show ?thesis
    by (simp add: k Dashboard_init_def update_weather_keyless truthy_def)
qed

theorem load_weather_key_degrades_witness:
  "map_of [(''api_key'', JStr ''k'')] ''location'' = None
   \<and> load_weather_key (FileText (Some (JObj [(''api_key'', JStr ''k'')]))) = Inr (JNull, JNull)
   \<and> Dashboard_init fmt_sample (FileText (Some (JObj [(''api_key'', JStr ''k'')]))) answers_no_condition
       = Inr \<lparr>api_key = JNull, location = JNull,
              stack = addWidget (addWidget (addWidget QStackedWidget)),
              temp_btn = ''No API'', weather_info = loading_text, http_log = []\<rparr>"
  using load_weather_key_degrades
          [of "FileText (Some (JObj [(''api_key'', JStr ''k'')]))" fmt_sample answers_no_condition]
  by simp

text \<open>
  Claim C3. When the API key is falsy, a refresh yields the disabled state (summary
  label "No API"), any further run of refreshes yields that same state, and the list
  of requested URLs is as it was: no network call is issued.
\<close>

theorem refresh_without_key_is_disabled:
  assumes "\<not> truthy (api_key d)"
  shows "update_weather fmt net d = Inr (d\<lparr>temp_btn := ''No API''\<rparr>)
         \<and> refreshes fmt (net # nets) d = Inr (d\<lparr>temp_btn := ''No API''\<rparr>)
         \<and> http_log (d\<lparr>temp_btn := ''No API''\<rparr>) = http_log d"
proof (intro conjI)
  show "update_weather fmt net d = Inr (d\<lparr>temp_btn := ''No API''\<rparr>)"
    using assms by (rule update_weather_keyless)
  show "refreshes fmt (net # nets) d = Inr (d\<lparr>temp_btn := ''No API''\<rparr>)"
    using assms by (rule refreshes_keyless)
  show "http_log (d\<lparr>temp_btn := ''No API''\<rparr>) = http_log d"
    by simp
qed

theorem refresh_without_key_is_disabled_witness:
  "\<not> truthy (api_key keyless_dashboard)
   \<and> refreshes fmt_sample [answers_sunny 200, answers_no_condition, answers_sunny 200] keyless_dashboard
       = Inr (keyless_dashboard\<lparr>temp_btn := ''No API''\<rparr>)
   \<and> http_log (keyless_dashboard\<lparr>temp_btn := ''No API''\<rparr>) = []"
proof -
  have k: "\<not> truthy (api_key keyless_dashboard)"
    by (simp add: keyless_dashboard_def keyed_dashboard_def truthy_def)
  have l: "http_log keyless_dashboard = []"
    by (simp add: keyless_dashboard_def keyed_dashboard_def)
  from refresh_without_key_is_disabled
         [OF k, of fmt_sample "answers_sunny 200" "[answers_no_condition, answers_sunny 200]"]
  show ?thesis using k l by (simp del: refreshes.simps)
qed

text \<open>
  Claim C10. When the API key is falsy, \<open>update_weather\<close> changes the summary button
  text and nothing else, so the detail label keeps its text through every refresh; for
  a dashboard constructed without a key that text is the initial "Loading\<dots>".
\<close>

theorem keyless_refresh_leaves_detail_label:
  assumes "\<not> truthy (api_key d)"
  shows "update_weather fmt net d = Inr (d\<lparr>temp_btn := ''No API''\<rparr>)
         \<and> (\<exists>d'. refreshes fmt nets d = Inr d' \<and> weather_info d' = weather_info d)
         \<and> (\<forall>f k l. load_weather_key f = Inr (k, l) \<and> \<not> truthy k \<longrightarrow>
               (\<exists>d0. Dashboard_init fmt f net = Inr d0 \<and> \<not> truthy (api_key d0)
                     \<and> temp_btn d0 = ''No API'' \<and> weather_info d0 = loading_text
                     \<and> (\<exists>d'. refreshes fmt nets d0 = Inr d' \<and> weather_info d' = loading_text)))"
proof -
  have step: "update_weather fmt net d = Inr (d\<lparr>temp_btn := ''No API''\<rparr>)"
    if "\<not> truthy (api_key d)" for d :: dashboard
    using that by (rule update_weather_keyless)
  have run: "\<exists>d'. refreshes fmt nets d = Inr d' \<and> weather_info d' = weather_info d"
    if "\<not> truthy (api_key d)" for d :: dashboard
  proof (cases nets)
    case Nil
    then show ?thesis by simp
  next
    case (Cons n ns)
    then show ?thesis using refreshes_keyless [OF that, of fmt n ns] by simp
  qed
  have init: "\<exists>d0. Dashboard_init fmt f net = Inr d0 \<and> \<not> truthy (api_key d0)
                \<and> temp_btn d0 = ''No API'' \<and> weather_info d0 = loading_text
                \<and> (\<exists>d'. refreshes fmt nets d0 = Inr d' \<and> weather_info d' = loading_text)"
    if "load_weather_key f = Inr (k, l)" "\<not> truthy k" for f k l
  proof -
    let ?d = "\<lparr>api_key = k, location = l,
               stack = addWidget (addWidget (addWidget QStackedWidget)),
               temp_btn = loading_text, weather_info = loading_text, http_log = []\<rparr>"
    have "Dashboard_init fmt f net = Inr (?d\<lparr>temp_btn := ''No API''\<rparr>)"
      using that by (simp add: Dashboard_init_def update_weather_keyless)
    moreover have "\<exists>d'. refreshes fmt nets (?d\<lparr>temp_btn := ''No API''\<rparr>) = Inr d'
                      \<and> weather_info d' = weather_info (?d\<lparr>temp_btn := ''No API''\<rparr>)"
      using that by (intro run) simp
    ultimately show ?thesis using that by simp
  qed
  show ?thesis using step [OF assms] run [OF assms] init by blast
qed

theorem keyless_refresh_leaves_detail_label_witness:
  "\<not> truthy (api_key keyless_dashboard)
   \<and> update_weather fmt_sample (answers_sunny 200) keyless_dashboard
       = Inr (keyless_dashboard\<lparr>temp_btn := ''No API''\<rparr>)
   \<and> weather_info (keyless_dashboard\<lparr>temp_btn := ''No API''\<rparr>) = loading_text
   \<and> (\<exists>d0. Dashboard_init fmt_sample OpenFails (answers_sunny 200) = Inr d0
             \<and> temp_btn d0 = ''No API'' \<and> weather_info d0 = loading_text)"
proof -
  have k: "\<not> truthy (api_key keyless_dashboard)"
    by (simp add: keyless_dashboard_def keyed_dashboard_def truthy_def)
  have l: "load_weather_key OpenFails = Inr (JNull, JNull) \<and> \<not> truthy JNull"
    by (simp add: load_weather_key_def load_weather_key_try_def truthy_def)
  from keyless_refresh_leaves_detail_label [OF k, of fmt_sample "answers_sunny 200" "[]"] l
  have "\<exists>d0. Dashboard_init fmt_sample OpenFails (answers_sunny 200) = Inr d0
             \<and> temp_btn d0 = ''No API'' \<and> weather_info d0 = loading_text"
    by blast
  with keyless_refresh_leaves_detail_label [OF k, of fmt_sample "answers_sunny 200" "[]"] k
  show ?thesis
    by (simp add: keyless_dashboard_def keyed_dashboard_def)
qed

lemma subscript_member:
  "subscript v k = (case member v k of None \<Rightarrow> Inl (case v of JObj kvs \<Rightarrow> KeyError | _ \<Rightarrow> TypeError) | Some x \<Rightarrow> Inr x)"
  by (cases v) (simp_all add: subscript_def member_def split: option.split)

lemma subscript_Inr_iff: "subscript v k = Inr x \<longleftrightarrow> member v k = Some x"
  by (simp add: subscript_member split: option.split)

lemma subscript_Inl: "subscript v k = Inl e \<Longrightarrow> member v k = None"
  by (simp add: subscript_member split: option.splits)

lemma weather_fields_Inr_iff:
  "weather_fields r = Inr (t, c) \<longleftrightarrow>
     (\<exists>cur cond. member r ''current'' = Some cur \<and> member cur ''temp_f'' = Some t
        \<and> member cur ''condition'' = Some cond \<and> member cond ''text'' = Some c)"
  by (auto simp: weather_fields_def subscript_Inr_iff split: sum.splits dest: subscript_Inl)

lemma has_expected_fields_iff:
  "has_expected_fields r \<longleftrightarrow> (\<exists>t c. weather_fields r = Inr (t, c))"
  by (auto simp: has_expected_fields_def weather_fields_Inr_iff split: option.splits)

lemma weather_fields_fail:
  "\<not> has_expected_fields r \<Longrightarrow> \<exists>e. weather_fields r = Inl e"
  using has_expected_fields_iff [of r] by (cases "weather_fields r") auto

lemma update_weather_caught:
  assumes "truthy (api_key d)"
    and "(case request_json (net (weather_url fmt d)) of Inl e \<Rightarrow> Inl e | Inr r \<Rightarrow> weather_fields r) = Inl e"
  shows "update_weather fmt net d
           = Inr (d\<lparr>http_log := http_log d @ [weather_url fmt d],
                    temp_btn := ''Err'', weather_info := ''Weather load error''\<rparr>)"
  using assms by (simp add: update_weather_def Let_def)

lemma update_weather_success:
  assumes "truthy (api_key d)"
    and "request_json (net (weather_url fmt d)) = Inr r"
    and "weather_fields r = Inr (t, c)"
  shows "update_weather fmt net d
           = Inr (d\<lparr>http_log := http_log d @ [weather_url fmt d],
                    temp_btn := fmt t @ degree_F,
                    weather_info := ''Temperature: '' @ fmt t @ degree_F @ newline
                                      @ ''Condition: '' @ fmt c\<rparr>)"
  using assms by (simp add: update_weather_def Let_def)

lemma sunny_fields: "weather_fields sunny_body = Inr (JFloat 72.5, JStr ''Sunny'')"
  by (simp add: weather_fields_def sunny_body_def subscript_def)

lemma no_condition_fields: "\<not> has_expected_fields no_condition_body"
  by (simp add: has_expected_fields_def member_def no_condition_body_def)

text \<open>
  Claim C1, as the code has it. With an API key present, a refresh that meets a
  failure the code can see (the request raises, the body is not JSON, or an expected
  field is missing) returns normally, and both display surfaces are in the error state:
  the summary reads "Err" and the detail reads "Weather load error". The status code
  is not among these failures: \<open>update_weather\<close> never reads it.
\<close>

theorem update_weather_failure_is_error_state:
  assumes "truthy (api_key d)"
    and "out = net (weather_url fmt d)"
    and "out = ConnectionFails \<or> (\<exists>st. out = Response st None)
         \<or> (\<exists>st r. out = Response st (Some r) \<and> \<not> has_expected_fields r)"
  shows "update_weather fmt net d
           = Inr (d\<lparr>http_log := http_log d @ [weather_url fmt d],
                    temp_btn := ''Err'', weather_info := ''Weather load error''\<rparr>)"
proof -
  have "\<exists>e. (case request_json out of Inl e \<Rightarrow> Inl e | Inr r \<Rightarrow> weather_fields r) = Inl e"
    using assms(3) weather_fields_fail
    by (auto simp: request_json_def)
  then show ?thesis
    using assms(1,2) update_weather_caught by blast
qed

theorem update_weather_failure_is_error_state_witness:
  "truthy (api_key keyed_dashboard)
   \<and> answers_no_condition (weather_url fmt_sample keyed_dashboard)
       = Response 200 (Some no_condition_body)
   \<and> \<not> has_expected_fields no_condition_body
   \<and> update_weather fmt_sample answers_no_condition keyed_dashboard
       = Inr (keyed_dashboard\<lparr>http_log := [''http://api.weatherapi.com/v1/current.json?key=k&q=Oslo''],
                temp_btn := ''Err'', weather_info := ''Weather load error''\<rparr>)"
proof -
  have k: "truthy (api_key keyed_dashboard)"
    by (simp add: keyed_dashboard_def truthy_def)
  have o: "answers_no_condition (weather_url fmt_sample keyed_dashboard)
             = Response 200 (Some no_condition_body)"
    by (simp add: answers_no_condition_def)
  have u: "weather_url fmt_sample keyed_dashboard
             = ''http://api.weatherapi.com/v1/current.json?key=k&q=Oslo''"
    by (simp add: weather_url_def fmt_sample_def keyed_dashboard_def)
  have l: "http_log keyed_dashboard = []"
    by (simp add: keyed_dashboard_def)
  from update_weather_failure_is_error_state
         [OF k refl, of answers_no_condition fmt_sample] o no_condition_fields
  have "update_weather fmt_sample answers_no_condition keyed_dashboard
          = Inr (keyed_dashboard\<lparr>http_log := http_log keyed_dashboard @ [weather_url fmt_sample keyed_dashboard],
                   temp_btn := ''Err'', weather_info := ''Weather load error''\<rparr>)"
    by blast
  then show ?thesis
    using k o no_condition_fields by (simp add: u l)
qed

text \<open>
  The claim as stated counts every non-2xx status as a failure. A response with status
  500 whose body carries the expected fields is displayed as weather data.
\<close>

theorem non_2xx_with_weather_body_counterexample:
  "truthy (api_key keyed_dashboard)
   \<and> answers_sunny 500 (weather_url fmt_sample keyed_dashboard) = Response 500 (Some sunny_body)
   \<and> update_weather fmt_sample (answers_sunny 500) keyed_dashboard
       = Inr (keyed_dashboard\<lparr>http_log := [''http://api.weatherapi.com/v1/current.json?key=k&q=Oslo''],
                temp_btn := ''72.5'' @ degree_F,
                weather_info := ''Temperature: 72.5'' @ degree_F @ newline @ ''Condition: Sunny''\<rparr>)
   \<and> ''72.5'' @ degree_F \<noteq> ''Err''
   \<and> ''Temperature: 72.5'' @ degree_F @ newline @ ''Condition: Sunny'' \<noteq> ''Weather load error''"
proof -
  have k: "truthy (api_key keyed_dashboard)"
    by (simp add: keyed_dashboard_def truthy_def)
  have o: "request_json (answers_sunny 500 (weather_url fmt_sample keyed_dashboard)) = Inr sunny_body"
    by (simp add: answers_sunny_def request_json_def)
  have u: "weather_url fmt_sample keyed_dashboard
             = ''http://api.weatherapi.com/v1/current.json?key=k&q=Oslo''"
    by (simp add: weather_url_def fmt_sample_def keyed_dashboard_def)
  have l: "http_log keyed_dashboard = []"
    by (simp add: keyed_dashboard_def)
  have f: "fmt_sample (JFloat 72.5) = ''72.5''" "fmt_sample (JStr ''Sunny'') = ''Sunny''"
    by (simp_all add: fmt_sample_def)
  have "update_weather fmt_sample (answers_sunny 500) keyed_dashboard
          = Inr (keyed_dashboard\<lparr>http_log := http_log keyed_dashboard @ [weather_url fmt_sample keyed_dashboard],
                   temp_btn := fmt_sample (JFloat 72.5) @ degree_F,
                   weather_info := ''Temperature: '' @ fmt_sample (JFloat 72.5) @ degree_F @ newline
                                     @ ''Condition: '' @ fmt_sample (JStr ''Sunny'')\<rparr>)"
    using k o sunny_fields by (rule update_weather_success)
  then have "update_weather fmt_sample (answers_sunny 500) keyed_dashboard
          = Inr (keyed_dashboard\<lparr>http_log := [''http://api.weatherapi.com/v1/current.json?key=k&q=Oslo''],
                   temp_btn := ''72.5'' @ degree_F,
                   weather_info := ''Temperature: 72.5'' @ degree_F @ newline @ ''Condition: Sunny''\<rparr>)"
    unfolding f u l by simp
  then show ?thesis
    using k by (simp add: answers_sunny_def degree_F_def)
qed

text \<open>
  Claim C7. A refresh that receives the body
  \<^verbatim>\<open>{"current":{"temp_f":72.5,"condition":{"text":"Sunny"}}}\<close> extracts the temperature
  72.5 and the condition "Sunny"; the summary becomes exactly "72.5" followed by the
  degree sign and "F", and the detail text holds both the temperature and the
  condition. The two facts about \<open>fmt\<close> are what Python's formatting gives for the
  float 72.5 and for a string.
\<close>

theorem update_weather_sunny:
  assumes "truthy (api_key d)"
    and "net (weather_url fmt d) = Response st (Some sunny_body)"
    and "fmt (JFloat 72.5) = ''72.5''"
    and "fmt (JStr ''Sunny'') = ''Sunny''"
  shows "weather_fields sunny_body = Inr (JFloat 72.5, JStr ''Sunny'')
         \<and> update_weather fmt net d
             = Inr (d\<lparr>http_log := http_log d @ [weather_url fmt d],
                      temp_btn := ''72.5'' @ degree_F,
                      weather_info := ''Temperature: 72.5'' @ degree_F @ newline
                                        @ ''Condition: Sunny''\<rparr>)"
proof -
  have "request_json (net (weather_url fmt d)) = Inr sunny_body"
    by (simp add: assms(2) request_json_def)
  with assms(1)
  have "update_weather fmt net d
          = Inr (d\<lparr>http_log := http_log d @ [weather_url fmt d],
                   temp_btn := fmt (JFloat 72.5) @ degree_F,
                   weather_info := ''Temperature: '' @ fmt (JFloat 72.5) @ degree_F @ newline
                                     @ ''Condition: '' @ fmt (JStr ''Sunny'')\<rparr>)"
    using sunny_fields by (rule update_weather_success)
  then have "update_weather fmt net d
          = Inr (d\<lparr>http_log := http_log d @ [weather_url fmt d],
                   temp_btn := ''72.5'' @ degree_F,
                   weather_info := ''Temperature: 72.5'' @ degree_F @ newline
                                     @ ''Condition: Sunny''\<rparr>)"
    unfolding assms(3,4) by simp
  then show ?thesis using sunny_fields by blast
qed

theorem update_weather_sunny_witness:
  "truthy (api_key keyed_dashboard)
   \<and> answers_sunny 200 (weather_url fmt_sample keyed_dashboard) = Response 200 (Some sunny_body)
   \<and> fmt_sample (JFloat 72.5) = ''72.5''
   \<and> fmt_sample (JStr ''Sunny'') = ''Sunny''
   \<and> update_weather fmt_sample (answers_sunny 200) keyed_dashboard
       = Inr (keyed_dashboard\<lparr>http_log := [''http://api.weatherapi.com/v1/current.json?key=k&q=Oslo''],
                temp_btn := ''72.5'' @ degree_F,
                weather_info := ''Temperature: 72.5'' @ degree_F @ newline @ ''Condition: Sunny''\<rparr>)"
proof -
  have k: "truthy (api_key keyed_dashboard)"
    by (simp add: keyed_dashboard_def truthy_def)
  have o: "answers_sunny 200 (weather_url fmt_sample keyed_dashboard) = Response 200 (Some sunny_body)"
    by (simp add: answers_sunny_def)
  have u: "weather_url fmt_sample keyed_dashboard
             = ''http://api.weatherapi.com/v1/current.json?key=k&q=Oslo''"
    by (simp add: weather_url_def fmt_sample_def keyed_dashboard_def)
  have l: "http_log keyed_dashboard = []"
    by (simp add: keyed_dashboard_def)
  have f: "fmt_sample (JFloat 72.5) = ''72.5''" "fmt_sample (JStr ''Sunny'') = ''Sunny''"
    by (simp_all add: fmt_sample_def)
  from update_weather_sunny [where d = keyed_dashboard and net = "answers_sunny 200" and fmt = fmt_sample, OF k o f]
  show ?thesis using k o f by (simp add: u l)
qed

section \<open>Properties of the navigation\<close>

lemma update_weather_stack:
  "update_weather fmt net d = Inr d' \<Longrightarrow> stack d' = stack d"
  by (auto simp: update_weather_def Let_def split: if_splits sum.splits prod.splits)

lemma Dashboard_init_stack:
  "\<exists>d0. Dashboard_init fmt f net = Inr d0
        \<and> stack d0 = \<lparr>count = 3, currentIndex = 0\<rparr>"
proof -
  obtain k l where kl: "load_weather_key f = Inr (k, l)"
    using load_weather_key_returns by blast
  let ?d = "\<lparr>api_key = k, location = l,
             stack = addWidget (addWidget (addWidget QStackedWidget)),
             temp_btn = loading_text, weather_info = loading_text, http_log = []\<rparr>"
  obtain d0 where d0: "update_weather fmt net ?d = Inr d0"
    using update_weather_returns by blast
  have "stack d0 = stack ?d"
    using d0 by (rule update_weather_stack)
  also have "\<dots> = \<lparr>count = 3, currentIndex = 0\<rparr>"
    by (simp add: addWidget_def QStackedWidget_def)
  finally show ?thesis
    using kl d0 by (simp add: Dashboard_init_def)
qed

lemma show_screen_count: "count (stack (show_screen s d)) = count (stack d)"
  by (cases s)
     (simp_all add: show_screen_def show_main_def show_weather_def show_calendar_def
                    setCurrentIndex_def)

lemma navigate_count: "count (stack (navigate hist d)) = count (stack d)"
  by (induction hist arbitrary: d) (simp_all add: show_screen_count)

lemma current_show_screen:
  "count (stack d) = 3 \<Longrightarrow> current (show_screen s d) = Some s"
  by (cases s)
     (simp_all add: show_screen_def show_main_def show_weather_def show_calendar_def
                    setCurrentIndex_def current_def)

lemma navigate_snoc: "navigate (hist @ [s]) d = show_screen s (navigate hist d)"
  by (induction hist arbitrary: d) simp_all

lemma current_navigate:
  "count (stack d) = 3 \<Longrightarrow> current d \<noteq> None \<Longrightarrow> current (navigate hist d) \<noteq> None"
proof (induction hist rule: rev_induct)
  case Nil
  then show ?case by simp
next
  case (snoc s hist)
  have "count (stack (navigate hist d)) = 3"
    using snoc.prems by (simp add: navigate_count)
  then show ?case
    by (simp add: navigate_snoc current_show_screen)
qed

text \<open>
  Claim C6. The dashboard is constructed showing the main screen. After any history of
  \<open>show\<close> calls, \<open>show s\<close> makes \<open>s\<close> the current screen, for each of the three
  screens, and the current screen is defined after every call; in particular showing
  the weather detail and then the main screen yields first the one, then the other.
\<close>

theorem show_sets_current:
  "\<exists>d0. Dashboard_init fmt f net = Inr d0
        \<and> current d0 = Some Main
        \<and> (\<forall>hist s. current (show_screen s (navigate hist d0)) = Some s)
        \<and> (\<forall>hist. current (navigate hist d0) \<noteq> None)
        \<and> current (show_screen WeatherDetail d0) = Some WeatherDetail
        \<and> current (show_screen Main (show_screen WeatherDetail d0)) = Some Main"
proof -
  obtain d0 where d0: "Dashboard_init fmt f net = Inr d0"
    and st: "stack d0 = \<lparr>count = 3, currentIndex = 0\<rparr>"
    using Dashboard_init_stack by blast
  have c: "count (stack d0) = 3" by (simp add: st)
  have m: "current d0 = Some Main" by (simp add: current_def st)
  have a: "current (show_screen s (navigate hist d0)) = Some s" for hist s
    by (rule current_show_screen) (simp add: navigate_count c)
  have b: "current (navigate hist d0) \<noteq> None" for hist
    by (rule current_navigate) (simp_all add: c m)
  have w: "current (show_screen WeatherDetail d0) = Some WeatherDetail"
    using a [of WeatherDetail "[]"] by simp
  have w': "current (show_screen Main (show_screen WeatherDetail d0)) = Some Main"
    using a [of Main "[WeatherDetail]"] by simp
  show ?thesis using d0 m a b w w' by blast
qed

section \<open>Properties of the matrix background\<close>

lemma randint_range: "a \<le> b \<Longrightarrow> a \<le> fst (randint a b g) \<and> fst (randint a b g) \<le> b"
proof -
  assume "a \<le> b"
  then have p: "0 < b - a + 1" by simp
  have "0 \<le> int (g 0) mod (b - a + 1)" "int (g 0) mod (b - a + 1) < b - a + 1"
    using p by (rule pos_mod_sign, rule pos_mod_bound)
  then show ?thesis
    by (simp add: randint_def next_value_def)
qed

lemma randints_Suc:
  "fst (randints (Suc n) g)
     = fst (randint 0 20 g) # fst (randints n (snd (randint 0 20 g)))"
  by (simp add: Let_def case_prod_beta)

lemma randints_length: "length (fst (randints n g)) = n"
  by (induction n arbitrary: g) (simp_all add: randints_Suc del: randints.simps(2))

lemma randints_range: "c \<in> set (fst (randints n g)) \<Longrightarrow> 0 \<le> c \<and> c \<le> 20"
proof (induction n arbitrary: g)
  case 0
  then show ?case by simp
next
  case (Suc n)
  have "0 \<le> fst (randint 0 20 g) \<and> fst (randint 0 20 g) \<le> 20"
    by (rule randint_range) simp
  then show ?case
    using Suc.prems Suc.IH [of "snd (randint 0 20 g)"]
    by (auto simp: randints_Suc simp del: randints.simps(2))
qed

lemma init_columns_eq:
  "init_columns m g =
     (m\<lparr>columns := fst (randints (nat ((if width m \<noteq> 0 then width m else 400) div 12)) g),
         font_size := 12\<rparr>,
      snd (randints (nat ((if width m \<noteq> 0 then width m else 400) div 12)) g))"
  by (simp add: init_columns_def Let_def case_prod_beta)

lemma randints_counting_2: "fst (randints 2 counting_rng) = [0, 1]"
  by (simp add: numeral_2_eq_2 randints_Suc randint_def next_value_def counting_rng_def
           del: randints.simps(2))


lemma column_step_snd:
  "snd (column_step fs h col g) = (if col * fs > h then snd (random_random g) else g)"
  by (simp add: column_step_def Let_def case_prod_beta)




lemma matrix_paintEvent_stopped:
  "\<not> running m \<Longrightarrow> matrix_paintEvent m g = (m, [], g)"
  by (simp add: matrix_paintEvent_def)





lemma ticks_stopped: "\<not> running m \<Longrightarrow> ticks n m g = (m, g)"
  by (induction n) (simp_all add: matrix_paintEvent_stopped)

lemma toggle_toggle: "toggle (toggle m) = m"
  by (simp add: toggle_def)

text \<open>
  Claim C8, as the code has it. A resize event reinitialises the column array: for a
  widget of positive width the column count is the width integer-divided by the cell
  size 12, for width 0 the fallback width 400 is used (33 columns), and every
  column's starting row lies between 0 and 20, both included.
\<close>

theorem resizeEvent_reinitialises_columns:
  assumes "resizeEvent w h m g = (m', g')"
  shows "length (columns m') = nat ((if w \<noteq> 0 then w else 400) div 12)
         \<and> (0 < w \<longrightarrow> int (length (columns m')) = w div 12)
         \<and> (w = 0 \<longrightarrow> length (columns m') = 33)
         \<and> (\<forall>c \<in> set (columns m'). 0 \<le> c \<and> c \<le> 20)
         \<and> font_size m' = 12 \<and> width m' = w \<and> height m' = h \<and> running m' = running m"
proof -
  define n where "n = nat ((if w \<noteq> 0 then w else 400) div 12)"
  have m': "m' = m\<lparr>width := w, height := h, columns := fst (randints n g), font_size := 12\<rparr>"
    using assms by (auto simp: resizeEvent_def init_columns_eq n_def)
  have len: "length (columns m') = n"
    by (simp add: m' randints_length)
  have rng: "\<forall>c \<in> set (columns m'). 0 \<le> c \<and> c \<le> 20"
    using randints_range [of _ n g] by (simp add: m')
  have pos: "0 < w \<longrightarrow> int (length (columns m')) = w div 12"
    by (simp add: len n_def pos_imp_zdiv_nonneg_iff)
  have zero: "w = 0 \<longrightarrow> length (columns m') = 33"
    by (simp add: len n_def)
  have rest: "font_size m' = 12 \<and> width m' = w \<and> height m' = h \<and> running m' = running m"
    by (simp add: m')
  show ?thesis
    using len pos zero rng rest unfolding n_def by blast
qed

theorem resizeEvent_reinitialises_columns_witness:
  "resizeEvent 24 100 fresh_matrix counting_rng
     = (fresh_matrix\<lparr>columns := [0, 1]\<rparr>, snd (randints 2 counting_rng))
   \<and> length (columns (fresh_matrix\<lparr>columns := [0, 1]\<rparr>)) = nat (24 div 12)
   \<and> int (length (columns (fresh_matrix\<lparr>columns := [0, 1]\<rparr>))) = 24 div 12"
proof -
  have r: "resizeEvent 24 100 fresh_matrix counting_rng
             = (fresh_matrix\<lparr>columns := [0, 1]\<rparr>, snd (randints 2 counting_rng))"
    by (simp add: resizeEvent_def init_columns_eq fresh_matrix_def randints_counting_2)
  from resizeEvent_reinitialises_columns [OF r]
  show ?thesis using r by simp
qed

text \<open>
  The claim as stated gives the count as the width divided by 12 for every resize. A
  widget resized to width 0 gets 33 columns, not 0.
\<close>

theorem resize_to_zero_width_counterexample:
  "length (columns (fst (resizeEvent 0 100 fresh_matrix counting_rng))) = 33
   \<and> int (length (columns (fst (resizeEvent 0 100 fresh_matrix counting_rng)))) \<noteq> 0 div 12"
  by (simp add: resizeEvent_def init_columns_eq randints_length)




text \<open>
  Claim C5. Toggling twice gives back the state, the flag included. While the effect
  is stopped a tick changes neither the columns nor anything else and draws nothing
  from the random source. So stopping a running effect, ticking any number of times
  and starting it again yields the state before the pause, and the next tick does what
  it would have done without the pause.
\<close>

theorem toggle_twice_preserves_columns:
  "toggle (toggle m) = m
   \<and> running (toggle (toggle m)) = running m
   \<and> (\<not> running m \<longrightarrow> matrix_paintEvent m g = (m, [], g) \<and> ticks n m g = (m, g))
   \<and> (running m \<longrightarrow>
        toggle (fst (ticks n (toggle m) g)) = m
        \<and> snd (ticks n (toggle m) g) = g
        \<and> matrix_paintEvent (toggle (fst (ticks n (toggle m) g))) (snd (ticks n (toggle m) g))
            = matrix_paintEvent m g)"
proof -
  have off: "ticks n (toggle m) g = (toggle m, g)" if "running m"
    using that by (intro ticks_stopped) (simp add: toggle_def)
  show ?thesis
    using off by (auto simp: toggle_toggle matrix_paintEvent_stopped ticks_stopped)
qed

theorem toggle_twice_preserves_columns_witness:
  "running fresh_matrix
   \<and> toggle (toggle fresh_matrix) = fresh_matrix
   \<and> ticks 3 (toggle fresh_matrix) counting_rng = (toggle fresh_matrix, counting_rng)
   \<and> columns (toggle (fst (ticks 3 (toggle fresh_matrix) counting_rng))) = [0, 0]"
proof -
  have r: "running fresh_matrix" "\<not> running (toggle fresh_matrix)"
          "columns fresh_matrix = [0, 0]"
    by (simp_all add: fresh_matrix_def toggle_def)
  from toggle_twice_preserves_columns [of fresh_matrix counting_rng 3]
       toggle_twice_preserves_columns [of "toggle fresh_matrix" counting_rng 3]
  show ?thesis
    using r by (simp del: ticks.simps)
qed

section \<open>Properties of the analog clock\<close>













end
